theory Spec2Isabelle
  imports Main
begin

section \<open>Data model of App.js\<close>

text \<open>
  The two symbols \<^verbatim>\<open>PLAYER_X = "X"\<close> and \<^verbatim>\<open>PLAYER_O = "O"\<close>. A board cell holds
  \<^verbatim>\<open>null\<close>, one of the two symbols, or (when an array is read or written beyond its
  length) \<^verbatim>\<open>undefined\<close>.
\<close>

datatype player = PLAYER_X | PLAYER_O

datatype cell = Null | Undefined | Sym player

type_synonym board = "cell list"

text \<open>JavaScript truthiness of a cell: \<^verbatim>\<open>null\<close> and \<^verbatim>\<open>undefined\<close> are falsy, the
  non-empty strings \<^verbatim>\<open>"X"\<close> and \<^verbatim>\<open>"O"\<close> are truthy.\<close>

fun truthy :: "cell \<Rightarrow> bool" where
  "truthy Null = False"
| "truthy Undefined = False"
| "truthy (Sym p) = True"

text \<open>\<^verbatim>\<open>squares[i]\<close>: reading beyond the end of an array gives \<^verbatim>\<open>undefined\<close>.\<close>

definition at :: "board \<Rightarrow> nat \<Rightarrow> cell" where
  "at squares i = (if i < length squares then squares ! i else Undefined)"

text \<open>\<^verbatim>\<open>newBoard[i] = v\<close> on a fresh copy: writing beyond the end extends the array,
  and the skipped positions read as \<^verbatim>\<open>undefined\<close>.\<close>

definition array_set :: "board \<Rightarrow> nat \<Rightarrow> cell \<Rightarrow> board" where
  "array_set squares i v =
     (if i < length squares then squares[i := v]
      else squares @ replicate (i - length squares) Undefined @ [v])"

text \<open>\<^verbatim>\<open>Array(9).fill(null)\<close>\<close>

definition getInitialBoard :: board where
  "getInitialBoard = replicate 9 Null"

section \<open>calculateWinner and boardWinnerSquares\<close>

definition calculateWinner_lines :: "nat list list" where
  "calculateWinner_lines =
     [[0, 1, 2],
      [3, 4, 5],
      [6, 7, 8],
      [0, 3, 6],
      [1, 4, 7],
      [2, 5, 8],
      [0, 4, 8],
      [2, 4, 6]]"

text \<open>The \<^verbatim>\<open>for (let line of lines)\<close> loop of \<^verbatim>\<open>calculateWinner\<close>, with
  \<^verbatim>\<open>const [a, b, c] = line\<close>.\<close>

fun calculateWinner_loop :: "board \<Rightarrow> nat list list \<Rightarrow> cell" where
  "calculateWinner_loop squares [] = Null"
| "calculateWinner_loop squares (line # rest) =
     (let a = line ! 0; b = line ! 1; c = line ! 2 in
      if truthy (at squares a) \<and>
         at squares a = at squares b \<and>
         at squares a = at squares c
      then at squares a
      else calculateWinner_loop squares rest)"

definition calculateWinner :: "board \<Rightarrow> cell" where
  "calculateWinner squares = calculateWinner_loop squares calculateWinner_lines"

definition boardWinnerSquares_lines :: "nat list list" where
  "boardWinnerSquares_lines =
     [[0, 1, 2],
      [3, 4, 5],
      [6, 7, 8],
      [0, 3, 6],
      [1, 4, 7],
      [2, 5, 8],
      [0, 4, 8],
      [2, 4, 6]]"

fun boardWinnerSquares_loop :: "board \<Rightarrow> nat list list \<Rightarrow> nat list" where
  "boardWinnerSquares_loop squares [] = []"
| "boardWinnerSquares_loop squares (line # rest) =
     (let a = line ! 0; b = line ! 1; c = line ! 2 in
      if truthy (at squares a) \<and>
         at squares a = at squares b \<and>
         at squares a = at squares c
      then line
      else boardWinnerSquares_loop squares rest)"

definition boardWinnerSquares :: "board \<Rightarrow> nat list" where
  "boardWinnerSquares squares = boardWinnerSquares_loop squares boardWinnerSquares_lines"

section \<open>The component state and its handlers\<close>

definition TWO_PLAYER :: string where
  "TWO_PLAYER = ''TWO_PLAYER''"

definition SINGLE_PLAYER :: string where
  "SINGLE_PLAYER = ''SINGLE_PLAYER''"

text \<open>The score object \<^verbatim>\<open>{ X: 0, O: 0, Draw: 0 }\<close>; its keys carry a suffix here because
  \<open>O\<close> is the composition of relations in HOL.\<close>

record score =
  X_count :: nat
  O_count :: nat
  Draw_count :: nat

text \<open>The \<^verbatim>\<open>useState\<close> variables of \<^verbatim>\<open>App\<close>. The mode is the JavaScript string that
  \<^verbatim>\<open>startGame\<close> was given.\<close>

record state =
  mode :: string
  board :: board
  xIsNext :: bool
  status :: string
  gameStarted :: bool
  gameOver :: bool
  score :: score

text \<open>The two emoji of the status messages, as their UTF-8 bytes.\<close>

definition party_popper :: string where
  "party_popper = [CHR 0xF0, CHR 0x9F, CHR 0x8E, CHR 0x89]"

definition disappointed_face :: string where
  "disappointed_face = [CHR 0xF0, CHR 0x9F, CHR 0x98, CHR 0x9E]"

fun player_name :: "player \<Rightarrow> string" where
  "player_name PLAYER_X = ''X''"
| "player_name PLAYER_O = ''O''"

text \<open>The state of the first render.\<close>

definition initial_state :: state where
  "initial_state =
     \<lparr>mode = TWO_PLAYER,
      board = getInitialBoard,
      xIsNext = True,
      status = ''Choose a mode & start the game.'',
      gameStarted = False,
      gameOver = False,
      score = \<lparr>X_count = 0, O_count = 0, Draw_count = 0\<rparr>\<rparr>"

definition startGame :: "state \<Rightarrow> string \<Rightarrow> state" where
  "startGame s selectedMode =
     s\<lparr>mode := selectedMode,
       board := getInitialBoard,
       gameStarted := True,
       xIsNext := True,
       gameOver := False,
       status := ''Your move: X'' @ (if selectedMode = SINGLE_PLAYER then '' (You)'' else [])\<rparr>"

definition restartGame :: "state \<Rightarrow> state" where
  "restartGame s =
     s\<lparr>board := getInitialBoard,
       gameOver := False,
       xIsNext := True,
       status := ''Game reset. '' @
         (if mode s = SINGLE_PLAYER then ''Your move: X (You)'' else ''X's turn'')\<rparr>"

text \<open>\<^verbatim>\<open>setScore((prev) => ({...prev, [winner]: prev[winner] + 1}))\<close>\<close>

fun score_winner :: "player \<Rightarrow> score \<Rightarrow> score" where
  "score_winner PLAYER_X prev = prev\<lparr>X_count := X_count prev + 1\<rparr>"
| "score_winner PLAYER_O prev = prev\<lparr>O_count := O_count prev + 1\<rparr>"

text \<open>\<^verbatim>\<open>handleBoardUpdate(newBoard, xTurnNext)\<close>, run on the state in which the caller's
  \<^verbatim>\<open>setBoard(newBoard)\<close> is already recorded. A winner that is neither \<^verbatim>\<open>null\<close> nor
  \<^verbatim>\<open>undefined\<close> is truthy.\<close>

definition handleBoardUpdate :: "state \<Rightarrow> board \<Rightarrow> bool \<Rightarrow> state" where
  "handleBoardUpdate s newBoard xTurnNext =
     (case calculateWinner newBoard of
        Sym winner \<Rightarrow>
          s\<lparr>status :=
              (if mode s = SINGLE_PLAYER
               then (if winner = PLAYER_X then ''You win! '' @ party_popper
                     else ''Computer wins! '' @ disappointed_face)
               else ''Player '' @ player_name winner @ '' wins! '' @ party_popper),
            gameOver := True,
            score := score_winner winner (score s)\<rparr>
      | _ \<Rightarrow>
          if list_all (\<lambda>cell. cell \<noteq> Null) newBoard
          then s\<lparr>status := ''It's a draw!'',
                 gameOver := True,
                 score := (score s)\<lparr>Draw_count := Draw_count (score s) + 1\<rparr>\<rparr>
          else s\<lparr>status :=
                   (if mode s = SINGLE_PLAYER
                    then (if xTurnNext then ''Your move: X (You)'' else ''Computer is thinking...'')
                    else (if xTurnNext then ''X'' else ''O'') @ '''s turn''),
                 xIsNext := xTurnNext\<rparr>)"

definition handleSquareClick :: "state \<Rightarrow> nat \<Rightarrow> state" where
  "handleSquareClick s idx =
     (if \<not> gameStarted s \<or> truthy (at (board s) idx) \<or> gameOver s then s
      else if mode s = SINGLE_PLAYER \<and> \<not> xIsNext s then s
      else
        let newBoard = array_set (board s) idx (Sym (if xIsNext s then PLAYER_X else PLAYER_O))
        in handleBoardUpdate (s\<lparr>board := newBoard\<rparr>) newBoard (\<not> xIsNext s))"

text \<open>The empty squares collected by \<^verbatim>\<open>makeAIMove\<close>:
  \<^verbatim>\<open>board.map((val, idx) => (val === null ? idx : null)).filter((v) => v !== null)\<close>.\<close>

definition available :: "board \<Rightarrow> nat option list" where
  "available squares =
     filter (\<lambda>v. v \<noteq> None)
       (map (\<lambda>(val, idx). if val = Null then Some idx else None)
          (zip squares [0 ..< length squares]))"

text \<open>\<^verbatim>\<open>makeAIMove\<close>. The parameter \<open>k\<close> is the value of
  \<^verbatim>\<open>Math.floor(Math.random() * available.length)\<close>, a position of \<^verbatim>\<open>available\<close>. Were it
  beyond the end, \<^verbatim>\<open>move\<close> would be \<^verbatim>\<open>undefined\<close> and the assignment would leave every
  element of the copied board as it was.\<close>

definition makeAIMove :: "state \<Rightarrow> nat \<Rightarrow> state" where
  "makeAIMove s k =
     (if length (available (board s)) = 0 then s
      else
        let newBoard =
              (if k < length (available (board s))
               then (case available (board s) ! k of
                       Some move \<Rightarrow> array_set (board s) move (Sym PLAYER_O)
                     | None \<Rightarrow> board s)
               else board s)
        in handleBoardUpdate (s\<lparr>board := newBoard\<rparr>) newBoard True)"

text \<open>The effect that schedules the computer's move: the timer is set only under this
  guard, and every change of the board, the turn, the mode or the two flags clears it, so
  when it fires \<^verbatim>\<open>makeAIMove\<close> runs on the state the guard was checked in.\<close>

definition aiMoveEffect :: "state \<Rightarrow> nat \<Rightarrow> state" where
  "aiMoveEffect s k =
     (if mode s = SINGLE_PLAYER \<and> gameStarted s \<and> \<not> gameOver s \<and> \<not> xIsNext s
      then makeAIMove s k
      else s)"

text \<open>The Restart button is rendered with \<^verbatim>\<open>disabled={!gameStarted}\<close>: a click reaches
  \<^verbatim>\<open>restartGame\<close> only once a game has been started.\<close>

definition restartButton :: "state \<Rightarrow> state" where
  "restartButton s = (if \<not> gameStarted s then s else restartGame s)"

section \<open>Notions of the specification\<close>

text \<open>The eight win lines in the order the specification gives them: the rows from the
  top, the columns from the left, the two diagonals.\<close>

definition WinLines :: "nat list list" where
  "WinLines =
     [[0, 1, 2], [3, 4, 5], [6, 7, 8]] @
     [[0, 3, 6], [1, 4, 7], [2, 5, 8]] @
     [[0, 4, 8], [2, 4, 6]]"

text \<open>A cell is occupied (non-empty) when it holds one of the two symbols.\<close>

definition occupied :: "cell \<Rightarrow> bool" where
  "occupied c = (c = Sym PLAYER_X \<or> c = Sym PLAYER_O)"

text \<open>A line wins if all three of its cells are non-empty and equal.\<close>

definition line_wins :: "board \<Rightarrow> nat list \<Rightarrow> bool" where
  "line_wins sq l =
     (occupied (at sq (l ! 0)) \<and> occupied (at sq (l ! 1)) \<and> occupied (at sq (l ! 2)) \<and>
      at sq (l ! 0) = at sq (l ! 1) \<and> at sq (l ! 1) = at sq (l ! 2))"

definition first_winning_line :: "board \<Rightarrow> nat list option" where
  "first_winning_line sq = find (line_wins sq) WinLines"

text \<open>The number of cells holding a given symbol, and the number of placed symbols.\<close>

definition count_sym :: "player \<Rightarrow> board \<Rightarrow> nat" where
  "count_sym p sq = length (filter (\<lambda>c. c = Sym p) sq)"

definition placed :: "board \<Rightarrow> nat" where
  "placed sq = length (filter occupied sq)"

text \<open>The symbol of the current turn.\<close>

definition turn_symbol :: "state \<Rightarrow> player" where
  "turn_symbol s = (if xIsNext s then PLAYER_X else PLAYER_O)"

text \<open>The legality check of a human move: it is rejected if the game has not started,
  the game is over, the cell is occupied, or in single-player mode it is not X's turn.\<close>

definition rejected :: "state \<Rightarrow> nat \<Rightarrow> bool" where
  "rejected s idx =
     (\<not> gameStarted s \<or> gameOver s \<or> occupied (at (board s) idx) \<or>
      (mode s = SINGLE_PLAYER \<and> \<not> xIsNext s))"

text \<open>The indices of the empty cells, in increasing order.\<close>

definition empty_cells :: "board \<Rightarrow> nat list" where
  "empty_cells sq = filter (\<lambda>i. sq ! i = Null) [0 ..< length sq]"

text \<open>A computer move is accepted in single-player mode, in a started game that is not
  over, when it is O's turn, and the position \<open>k\<close> drawn by the random choice is one of the
  empty cells.\<close>

definition computer_accepts :: "state \<Rightarrow> nat \<Rightarrow> bool" where
  "computer_accepts s k =
     (mode s = SINGLE_PLAYER \<and> gameStarted s \<and> \<not> gameOver s \<and> \<not> xIsNext s \<and>
      k < length (empty_cells (board s)))"

text \<open>The resolution step as the specification words it, relating the state \<open>s\<close> before
  an accepted move, the board \<open>newBoard\<close> after the placement and the state \<open>s'\<close> after
  the move. A won game is a state with \<open>gameOver\<close> set whose board has a winner; a drawn
  game is a state with \<open>gameOver\<close> set whose board has none; a game in progress is a started
  state with \<open>gameOver\<close> clear.\<close>

definition resolved :: "state \<Rightarrow> board \<Rightarrow> state \<Rightarrow> bool" where
  "resolved s newBoard s' =
     (board s' = newBoard \<and> mode s' = mode s \<and> gameStarted s' \<and>
      (case calculateWinner newBoard of
         Sym winner \<Rightarrow>
           gameOver s' \<and> score s' = score_winner winner (score s)
       | _ \<Rightarrow>
           if Null \<notin> set newBoard
           then gameOver s' \<and> score s' = (score s)\<lparr>Draw_count := Draw_count (score s) + 1\<rparr>
           else \<not> gameOver s' \<and> xIsNext s' = (\<not> xIsNext s) \<and> score s' = score s))"

text \<open>Exactly one of the three counters is one higher and the other two are as before.\<close>

definition one_counter_incremented :: "score \<Rightarrow> score \<Rightarrow> bool" where
  "one_counter_incremented old new =
     ((X_count new = X_count old + 1 \<and> O_count new = O_count old \<and>
       Draw_count new = Draw_count old) \<or>
      (X_count new = X_count old \<and> O_count new = O_count old + 1 \<and>
       Draw_count new = Draw_count old) \<or>
      (X_count new = X_count old \<and> O_count new = O_count old \<and>
       Draw_count new = Draw_count old + 1))"

section \<open>Games used as examples\<close>

text \<open>A two-player game after X at 0, O at 3, X at 1, O at 4: X completes the top row
  by playing 2.\<close>

definition row_game :: state where
  "row_game = foldl handleSquareClick (startGame initial_state TWO_PLAYER) [0, 3, 1, 4]"

text \<open>A two-player game after eight moves with only cell 8 empty: X playing 8 fills the
  board and completes the diagonal 0, 4, 8.\<close>

definition full_board_game :: state where
  "full_board_game =
     foldl handleSquareClick (startGame initial_state TWO_PLAYER) [0, 1, 2, 3, 4, 5, 7, 6]"

text \<open>A single-player game after the human's first move, X at 4: the computer is to move.\<close>

definition computer_game :: state where
  "computer_game = handleSquareClick (startGame initial_state SINGLE_PLAYER) 4"

text \<open>A single-player game in which the computer wins by its next move: X at 0, O at 3,
  X at 1, O at 4, X at 8, and the random choice then falls on cell 5.\<close>

definition computer_win_game :: state where
  "computer_win_game =
     handleSquareClick
       (aiMoveEffect
          (handleSquareClick
             (aiMoveEffect (handleSquareClick (startGame initial_state SINGLE_PLAYER) 0) 2)
             1)
          1)
       8"

text \<open>A board never reached in play: three X in the top row and nothing else.\<close>

definition top_row_board :: board where
  "top_row_board = [Sym PLAYER_X, Sym PLAYER_X, Sym PLAYER_X, Null, Null, Null, Null, Null, Null]"

section \<open>Arrays\<close>

lemma replicate9: "replicate 9 x = [x, x, x, x, x, x, x, x, x]"
  by (simp add: eval_nat_numeral)

lemma truthy_occupied: "truthy c = occupied c"
  by (cases c rule: truthy.cases) (auto simp: occupied_def intro: player.exhaust)

lemma at_Sym: "at sq i = Sym p \<Longrightarrow> i < length sq \<and> sq ! i = Sym p"
  by (auto simp: at_def split: if_splits)

lemma at_array_set_same: "at (array_set sq i v) i = v"
  by (simp add: at_def array_set_def nth_append)

lemma at_array_set_other:
  assumes "j \<noteq> i"
  shows "at (array_set sq i v) j = at sq j"
proof (cases "i < length sq")
  case True
  with assms show ?thesis by (simp add: at_def array_set_def)
next
  case False
  show ?thesis
  proof (cases "j < length sq")
    case True
    with False show ?thesis by (simp add: at_def array_set_def nth_append)
  next
    case j: False
    show ?thesis
    proof (cases "j < i")
      case True
      with j have "j - length sq < i - length sq" by arith
      with True False j show ?thesis by (simp add: at_def array_set_def nth_append)
    next
      case False
      with assms have "i < j" by simp
      with \<open>\<not> i < length sq\<close> j show ?thesis by (simp add: at_def array_set_def)
    qed
  qed
qed

section \<open>The two line scans\<close>

lemma calculateWinner_loop_find:
  "calculateWinner_loop sq ls =
     (case find (line_wins sq) ls of None \<Rightarrow> Null | Some l \<Rightarrow> at sq (l ! 0))"
  by (induction ls) (auto simp: Let_def line_wins_def truthy_occupied)

lemma boardWinnerSquares_loop_find:
  "boardWinnerSquares_loop sq ls = (case find (line_wins sq) ls of None \<Rightarrow> [] | Some l \<Rightarrow> l)"
  by (induction ls) (auto simp: Let_def line_wins_def truthy_occupied)

lemma lines_are_WinLines:
  "calculateWinner_lines = WinLines" "boardWinnerSquares_lines = WinLines"
  by (simp_all add: calculateWinner_lines_def boardWinnerSquares_lines_def WinLines_def)

lemma WinLines_shape:
  "l \<in> set WinLines \<Longrightarrow>
     length l = 3 \<and> l ! 0 \<noteq> l ! 1 \<and> l ! 0 \<noteq> l ! 2 \<and> l ! 1 \<noteq> l ! 2"
  by (auto simp: WinLines_def)

lemma set_of_triple:
  assumes "length l = 3"
  shows "set l = {l ! 0, l ! 1, l ! 2}"
proof -
  from assms obtain a b c where "l = [a, b, c]"
    by (metis (no_types, opaque_lifting) length_0_conv length_Suc_conv numeral_3_eq_3)
  then show ?thesis by simp
qed

lemma line_wins_symbol:
  "line_wins sq l \<Longrightarrow>
     \<exists>p. at sq (l ! 0) = Sym p \<and> at sq (l ! 1) = Sym p \<and> at sq (l ! 2) = Sym p"
  by (auto simp: line_wins_def occupied_def)

lemma winner_cases:
  "(calculateWinner sq = Null \<and> boardWinnerSquares sq = [] \<and>
      (\<forall>l \<in> set WinLines. \<not> line_wins sq l)) \<or>
   (\<exists>l p. l \<in> set WinLines \<and> boardWinnerSquares sq = l \<and> calculateWinner sq = Sym p \<and>
      at sq (l ! 0) = Sym p \<and> at sq (l ! 1) = Sym p \<and> at sq (l ! 2) = Sym p)"
proof (cases "find (line_wins sq) WinLines")
  case None
  then have "\<forall>l \<in> set WinLines. \<not> line_wins sq l"
    by (simp add: find_None_iff)
  with None show ?thesis
    by (simp add: calculateWinner_def boardWinnerSquares_def
        calculateWinner_loop_find boardWinnerSquares_loop_find lines_are_WinLines)
next
  case (Some l)
  then have l: "l \<in> set WinLines" "line_wins sq l"
    by (auto simp: find_Some_iff)
  from line_wins_symbol [OF l(2)] obtain p where
    "at sq (l ! 0) = Sym p" "at sq (l ! 1) = Sym p" "at sq (l ! 2) = Sym p" by blast
  with Some l show ?thesis
    by (simp add: calculateWinner_def boardWinnerSquares_def
        calculateWinner_loop_find boardWinnerSquares_loop_find lines_are_WinLines)
qed

lemma calculateWinner_range: "calculateWinner sq = Null \<or> (\<exists>p. calculateWinner sq = Sym p)"
  using winner_cases [of sq] by auto

section \<open>Counting symbols\<close>

lemma placed_counts: "placed sq = count_sym PLAYER_X sq + count_sym PLAYER_O sq"
proof (induction sq)
  case Nil
  show ?case by (simp add: placed_def count_sym_def)
next
  case (Cons c sq)
  then show ?case
    by (cases c rule: truthy.cases) (auto simp: placed_def count_sym_def occupied_def)
qed

lemma three_cells_count:
  assumes "at sq i = Sym p" "at sq j = Sym p" "at sq k = Sym p"
    and "i \<noteq> j" "i \<noteq> k" "j \<noteq> k"
  shows "3 \<le> count_sym p sq"
proof -
  let ?S = "{n. n < length sq \<and> sq ! n = Sym p}"
  have fin: "finite ?S" by simp
  have sub: "{i, j, k} \<subseteq> ?S" using assms(1-3) by (auto dest: at_Sym)
  have "card {i, j, k} = 3" using assms(4-6) by simp
  with card_mono [OF fin sub] have "3 \<le> card ?S" by simp
  then show ?thesis by (simp add: count_sym_def length_filter_conv_card)
qed

lemma winner_count:
  assumes "calculateWinner sq = Sym p"
  shows "3 \<le> count_sym p sq"
proof -
  from winner_cases [of sq] assms obtain l where l: "l \<in> set WinLines"
    and c: "at sq (l ! 0) = Sym p" "at sq (l ! 1) = Sym p" "at sq (l ! 2) = Sym p"
    by auto
  from WinLines_shape [OF l] have "l ! 0 \<noteq> l ! 1" "l ! 0 \<noteq> l ! 2" "l ! 1 \<noteq> l ! 2"
    by simp_all
  with c show ?thesis by (rule three_cells_count)
qed

section \<open>The handlers\<close>

lemma zip_upt: "zip xs [0 ..< length xs] = map (\<lambda>i. (xs ! i, i)) [0 ..< length xs]"
  by (rule nth_equalityI) simp_all

lemma filter_Some:
  "filter (\<lambda>v. v \<noteq> None) (map (\<lambda>i. if P i then Some i else None) ns) = map Some (filter P ns)"
  by (induction ns) (simp_all del: not_None_eq)

lemma available_empty_cells: "available sq = map Some (empty_cells sq)"
  by (simp add: available_def empty_cells_def zip_upt comp_def filter_Some del: not_None_eq)

lemma empty_cells_Null:
  assumes "k < length (empty_cells sq)"
  shows "at sq (empty_cells sq ! k) = Null"
proof -
  from assms have "empty_cells sq ! k \<in> set (empty_cells sq)" by simp
  then show ?thesis by (simp add: empty_cells_def at_def)
qed

lemma list_all_not_Null: "list_all (\<lambda>cell. cell \<noteq> Null) sq = (Null \<notin> set sq)"
  by (auto simp: list_all_iff)

lemma handleBoardUpdate_resolved:
  "gameStarted s \<Longrightarrow> \<not> gameOver s \<Longrightarrow>
   resolved s newBoard (handleBoardUpdate (s\<lparr>board := newBoard\<rparr>) newBoard (\<not> xIsNext s))"
  by (simp add: resolved_def handleBoardUpdate_def list_all_not_Null split: cell.splits)

lemma handleSquareClick_rejected: "rejected s idx \<Longrightarrow> handleSquareClick s idx = s"
  by (auto simp: rejected_def handleSquareClick_def truthy_occupied)

lemma handleSquareClick_accepted:
  "\<not> rejected s idx \<Longrightarrow>
   handleSquareClick s idx =
     handleBoardUpdate (s\<lparr>board := array_set (board s) idx (Sym (turn_symbol s))\<rparr>)
       (array_set (board s) idx (Sym (turn_symbol s))) (\<not> xIsNext s)"
  by (auto simp: rejected_def handleSquareClick_def truthy_occupied turn_symbol_def Let_def)

lemma aiMoveEffect_accepted:
  "computer_accepts s k \<Longrightarrow>
   aiMoveEffect s k =
     handleBoardUpdate (s\<lparr>board := array_set (board s) (empty_cells (board s) ! k) (Sym PLAYER_O)\<rparr>)
       (array_set (board s) (empty_cells (board s) ! k) (Sym PLAYER_O)) True"
  by (auto simp: computer_accepts_def aiMoveEffect_def makeAIMove_def available_empty_cells Let_def)

lemma handleSquareClick_cases:
  "handleSquareClick s idx = s \<or>
   (\<not> gameOver s \<and> (\<exists>nb t. handleSquareClick s idx = handleBoardUpdate (s\<lparr>board := nb\<rparr>) nb t))"
  by (auto simp: handleSquareClick_def Let_def)

lemma makeAIMove_cases:
  "makeAIMove s k = s \<or> (\<exists>nb. makeAIMove s k = handleBoardUpdate (s\<lparr>board := nb\<rparr>) nb True)"
proof (cases "length (available (board s)) = 0")
  case True
  then show ?thesis by (simp add: makeAIMove_def)
next
  case False
  then show ?thesis
    unfolding makeAIMove_def Let_def by (simp only: if_False) blast
qed

lemma aiMoveEffect_cases:
  "aiMoveEffect s k = s \<or>
   (\<not> gameOver s \<and> \<not> xIsNext s \<and>
    (\<exists>nb. aiMoveEffect s k = handleBoardUpdate (s\<lparr>board := nb\<rparr>) nb True))"
  using makeAIMove_cases [of s k] by (auto simp: aiMoveEffect_def)

lemma score_winner_incremented: "one_counter_incremented sc (score_winner p sc)"
  by (cases p) (simp_all add: one_counter_incremented_def)

lemma handleBoardUpdate_score:
  "(gameOver (handleBoardUpdate s nb t) \<and> \<not> gameOver s \<longrightarrow>
      one_counter_incremented (score s) (score (handleBoardUpdate s nb t))) \<and>
   (\<not> gameOver (handleBoardUpdate s nb t) \<longrightarrow> score (handleBoardUpdate s nb t) = score s)"
  by (simp add: handleBoardUpdate_def score_winner_incremented split: cell.splits)
     (simp add: one_counter_incremented_def)

lemma handleBoardUpdate_turn:
  "(gameOver (handleBoardUpdate s nb t) \<and> \<not> gameOver s \<longrightarrow>
      xIsNext (handleBoardUpdate s nb t) = xIsNext s) \<and>
   (\<not> gameOver (handleBoardUpdate s nb t) \<longrightarrow> xIsNext (handleBoardUpdate s nb t) = t)"
  by (simp add: handleBoardUpdate_def split: cell.splits)

section \<open>The example games, evaluated\<close>

lemmas handler_defs =
  startGame_def initial_state_def handleSquareClick_def handleBoardUpdate_def
  aiMoveEffect_def makeAIMove_def available_def
  calculateWinner_def calculateWinner_lines_def getInitialBoard_def at_def array_set_def
  TWO_PLAYER_def SINGLE_PLAYER_def Let_def

lemma row_game_value:
  "row_game =
     \<lparr>mode = ''TWO_PLAYER'',
      board = [Sym PLAYER_X, Sym PLAYER_X, Null, Sym PLAYER_O, Sym PLAYER_O,
               Null, Null, Null, Null],
      xIsNext = True, status = ''X's turn'', gameStarted = True, gameOver = False,
      score = \<lparr>X_count = 0, O_count = 0, Draw_count = 0\<rparr>\<rparr>"
  by (simp add: row_game_def handler_defs replicate9)

lemma full_board_game_value:
  "full_board_game =
     \<lparr>mode = ''TWO_PLAYER'',
      board = [Sym PLAYER_X, Sym PLAYER_O, Sym PLAYER_X, Sym PLAYER_O, Sym PLAYER_X,
               Sym PLAYER_O, Sym PLAYER_O, Sym PLAYER_X, Null],
      xIsNext = True, status = ''X's turn'', gameStarted = True, gameOver = False,
      score = \<lparr>X_count = 0, O_count = 0, Draw_count = 0\<rparr>\<rparr>"
  by (simp add: full_board_game_def handler_defs replicate9)

lemma computer_game_value:
  "computer_game =
     \<lparr>mode = ''SINGLE_PLAYER'',
      board = [Null, Null, Null, Null, Sym PLAYER_X, Null, Null, Null, Null],
      xIsNext = False, status = ''Computer is thinking...'', gameStarted = True,
      gameOver = False,
      score = \<lparr>X_count = 0, O_count = 0, Draw_count = 0\<rparr>\<rparr>"
  by (simp add: computer_game_def handler_defs replicate9)

lemma computer_win_game_value:
  "computer_win_game =
     \<lparr>mode = ''SINGLE_PLAYER'',
      board = [Sym PLAYER_X, Sym PLAYER_X, Null, Sym PLAYER_O, Sym PLAYER_O,
               Null, Null, Null, Sym PLAYER_X],
      xIsNext = False, status = ''Computer is thinking...'', gameStarted = True,
      gameOver = False,
      score = \<lparr>X_count = 0, O_count = 0, Draw_count = 0\<rparr>\<rparr>"
  by (simp add: computer_win_game_def handler_defs replicate9 upt_conv_Cons)


section \<open>The win detector\<close>

text \<open>
  C3: For every board, \<open>calculateWinner\<close> checks the eight win lines in the fixed order
  rows, columns, diagonals and returns the symbol of the first line whose three cells
  are all non-empty and equal, \<open>null\<close> if no line matches; \<open>boardWinnerSquares\<close> returns
  that same first matching line, the empty array if there is none. Both are functions
  of the board alone.
\<close>

theorem calculateWinner_first_winning_line:
  "calculateWinner sq =
     (case first_winning_line sq of None \<Rightarrow> Null | Some l \<Rightarrow> at sq (l ! 0)) \<and>
   boardWinnerSquares sq = (case first_winning_line sq of None \<Rightarrow> [] | Some l \<Rightarrow> l)"
  by (simp add: calculateWinner_def boardWinnerSquares_def first_winning_line_def
      calculateWinner_loop_find boardWinnerSquares_loop_find lines_are_WinLines)

text \<open>
  C10: \<open>calculateWinner\<close> returns a symbol if and only if \<open>boardWinnerSquares\<close> returns a
  non-empty line; that line then has three cells, each holding exactly the returned
  symbol. \<open>calculateWinner\<close> never returns \<open>undefined\<close>.
\<close>

theorem calculateWinner_agrees_with_boardWinnerSquares:
  "((\<exists>p. calculateWinner sq = Sym p) \<longleftrightarrow> boardWinnerSquares sq \<noteq> []) \<and>
   calculateWinner sq \<noteq> Undefined \<and>
   (\<forall>p. calculateWinner sq = Sym p \<longrightarrow>
      length (boardWinnerSquares sq) = 3 \<and>
      (\<forall>i \<in> set (boardWinnerSquares sq). at sq i = Sym p))"
  using winner_cases [of sq]
proof (elim disjE exE conjE)
  assume "calculateWinner sq = Null" "boardWinnerSquares sq = []"
  then show ?thesis by simp
next
  fix l p
  assume a: "l \<in> set WinLines" "boardWinnerSquares sq = l" "calculateWinner sq = Sym p"
    "at sq (l ! 0) = Sym p" "at sq (l ! 1) = Sym p" "at sq (l ! 2) = Sym p"
  from WinLines_shape [OF a(1)] have len: "length l = 3" by simp
  then have "l \<noteq> []" by auto
  with a len set_of_triple [OF len] show ?thesis by auto
qed

text \<open>The board of the row game after X has played 2: the winner is X, the line is the
  top row, and its three cells hold X.\<close>

theorem calculateWinner_agrees_with_boardWinnerSquares_witness:
  "calculateWinner (board (handleSquareClick row_game 2)) = Sym PLAYER_X \<and>
   boardWinnerSquares (board (handleSquareClick row_game 2)) = [0, 1, 2] \<and>
   at (board (handleSquareClick row_game 2)) 0 = Sym PLAYER_X \<and>
   at (board (handleSquareClick row_game 2)) 1 = Sym PLAYER_X \<and>
   at (board (handleSquareClick row_game 2)) 2 = Sym PLAYER_X"
proof -
  let ?b = "board (handleSquareClick row_game 2)"
  have b: "?b = [Sym PLAYER_X, Sym PLAYER_X, Sym PLAYER_X, Sym PLAYER_O, Sym PLAYER_O,
                 Null, Null, Null, Null]"
    by (simp add: row_game_value handler_defs)
  have w: "calculateWinner ?b = Sym PLAYER_X"
    by (simp add: b calculateWinner_def calculateWinner_lines_def at_def)
  have l: "boardWinnerSquares ?b = [0, 1, 2]"
    by (simp add: b boardWinnerSquares_def boardWinnerSquares_lines_def at_def)
  from calculateWinner_agrees_with_boardWinnerSquares [of ?b] w
  have "\<forall>i \<in> set (boardWinnerSquares ?b). at ?b i = Sym PLAYER_X" by blast
  with w l show ?thesis by simp
qed

text \<open>
  C7 as the specification states it fails: the board with three X in the top row and
  six empty cells has nine cells and three placed symbols, fewer than five, and
  \<open>calculateWinner\<close> returns X for it.
\<close>

theorem calculateWinner_fewer_than_5_counterexample:
  "length top_row_board = 9 \<and> placed top_row_board = 3 \<and>
   calculateWinner top_row_board = Sym PLAYER_X"
  by (simp add: top_row_board_def placed_def occupied_def calculateWinner_def
      calculateWinner_lines_def at_def)

text \<open>
  C7, amended: \<open>calculateWinner\<close> returns no winner for the empty board, and for any
  board with fewer than five placed symbols on which the symbols alternate as in play,
  that is, the number of X equals the number of O or exceeds it by one.
\<close>

theorem calculateWinner_fewer_than_5:
  "calculateWinner getInitialBoard = Null \<and>
   (placed sq < 5 \<and>
    (count_sym PLAYER_X sq = count_sym PLAYER_O sq \<or>
     count_sym PLAYER_X sq = count_sym PLAYER_O sq + 1)
    \<longrightarrow> calculateWinner sq = Null)"
proof (intro conjI impI)
  show "calculateWinner getInitialBoard = Null"
    by (simp add: calculateWinner_def calculateWinner_lines_def getInitialBoard_def at_def
        replicate9)
next
  assume h: "placed sq < 5 \<and>
    (count_sym PLAYER_X sq = count_sym PLAYER_O sq \<or>
     count_sym PLAYER_X sq = count_sym PLAYER_O sq + 1)"
  then have few: "count_sym PLAYER_X sq < 3" "count_sym PLAYER_O sq < 3"
    by (auto simp: placed_counts)
  show "calculateWinner sq = Null"
  proof (rule ccontr)
    assume "calculateWinner sq \<noteq> Null"
    with calculateWinner_range [of sq] obtain p where p: "calculateWinner sq = Sym p"
      by auto
    from winner_count [OF p] few show False by (cases p) auto
  qed
qed

text \<open>The board of the row game, two X and two O: four placed symbols and no winner.\<close>

theorem calculateWinner_fewer_than_5_witness:
  "placed (board row_game) = 4 \<and>
   count_sym PLAYER_X (board row_game) = 2 \<and> count_sym PLAYER_O (board row_game) = 2 \<and>
   calculateWinner (board row_game) = Null"
proof -
  have c: "placed (board row_game) = 4" "count_sym PLAYER_X (board row_game) = 2"
    "count_sym PLAYER_O (board row_game) = 2"
    by (simp_all add: row_game_value placed_def count_sym_def occupied_def)
  with calculateWinner_fewer_than_5 [of "board row_game"]
  have "calculateWinner (board row_game) = Null" by simp
  with c show ?thesis by simp
qed

section \<open>Moves and the resolution step\<close>

text \<open>
  C1: For every accepted move, human or computer, the resolution step runs once on the
  board after the placement: if \<open>calculateWinner\<close> finds a winner the game is over and
  the winner's counter increases by exactly one; otherwise, if no cell is empty, the
  game is over and the draw counter increases by exactly one; otherwise the turn flips
  and the game stays in progress with the score as it was. The winner is looked for
  before the draw.
\<close>

theorem accepted_move_resolved:
  "(\<not> rejected s idx \<longrightarrow>
      resolved s (array_set (board s) idx (Sym (turn_symbol s))) (handleSquareClick s idx)) \<and>
   (computer_accepts s k \<longrightarrow>
      at (board s) (empty_cells (board s) ! k) = Null \<and>
      resolved s (array_set (board s) (empty_cells (board s) ! k) (Sym PLAYER_O))
        (aiMoveEffect s k))"
proof (intro conjI impI)
  assume "\<not> rejected s idx"
  then show "resolved s (array_set (board s) idx (Sym (turn_symbol s))) (handleSquareClick s idx)"
    by (simp add: handleSquareClick_accepted handleBoardUpdate_resolved rejected_def)
next
  assume "computer_accepts s k"
  then show "at (board s) (empty_cells (board s) ! k) = Null"
    by (simp add: computer_accepts_def empty_cells_Null)
next
  assume a: "computer_accepts s k"
  then have g: "gameStarted s" "\<not> gameOver s" and t: "(\<not> xIsNext s) = True"
    by (simp_all add: computer_accepts_def)
  from handleBoardUpdate_resolved [OF g] aiMoveEffect_accepted [OF a]
  show "resolved s (array_set (board s) (empty_cells (board s) ! k) (Sym PLAYER_O))
     (aiMoveEffect s k)"
    by (simp only: t)
qed

text \<open>In the full-board game X plays the last empty cell and completes a diagonal: the
  game is won, X's counter is one and the draw counter stays zero. In the computer game
  the computer's move is accepted, O lands on cell 2, and the turn returns to X.\<close>

theorem accepted_move_resolved_witness:
  "\<not> rejected full_board_game 8 \<and>
   Null \<notin> set (board (handleSquareClick full_board_game 8)) \<and>
   gameOver (handleSquareClick full_board_game 8) \<and>
   score (handleSquareClick full_board_game 8) = \<lparr>X_count = 1, O_count = 0, Draw_count = 0\<rparr> \<and>
   computer_accepts computer_game 2 \<and>
   at (board (aiMoveEffect computer_game 2)) 2 = Sym PLAYER_O \<and>
   \<not> gameOver (aiMoveEffect computer_game 2) \<and>
   xIsNext (aiMoveEffect computer_game 2)"
proof -
  have h1: "\<not> rejected full_board_game 8"
    by (simp add: full_board_game_value rejected_def occupied_def at_def SINGLE_PLAYER_def)
  have e: "empty_cells (board computer_game) = [0, 1, 2, 3, 5, 6, 7, 8]"
    by (simp add: computer_game_value empty_cells_def upt_conv_Cons)
  have h2: "computer_accepts computer_game 2"
    by (simp add: computer_accepts_def e) (simp add: computer_game_value SINGLE_PLAYER_def)
  from accepted_move_resolved [where s = full_board_game and idx = 8]
    accepted_move_resolved [where s = computer_game and k = 2] h1 h2
  have r1: "resolved full_board_game
              (array_set (board full_board_game) 8 (Sym (turn_symbol full_board_game)))
              (handleSquareClick full_board_game 8)"
    and r2: "resolved computer_game
              (array_set (board computer_game) (empty_cells (board computer_game) ! 2) (Sym PLAYER_O))
              (aiMoveEffect computer_game 2)"
    by simp_all
  have b1: "array_set (board full_board_game) 8 (Sym (turn_symbol full_board_game)) =
      [Sym PLAYER_X, Sym PLAYER_O, Sym PLAYER_X, Sym PLAYER_O, Sym PLAYER_X,
       Sym PLAYER_O, Sym PLAYER_O, Sym PLAYER_X, Sym PLAYER_X]"
    by (simp add: full_board_game_value array_set_def turn_symbol_def)
  have b2: "array_set (board computer_game) (empty_cells (board computer_game) ! 2) (Sym PLAYER_O) =
      [Null, Null, Sym PLAYER_O, Null, Sym PLAYER_X, Null, Null, Null, Null]"
    by (simp add: e) (simp add: computer_game_value array_set_def)
  from r1 have "Null \<notin> set (board (handleSquareClick full_board_game 8)) \<and>
      gameOver (handleSquareClick full_board_game 8) \<and>
      score (handleSquareClick full_board_game 8) = \<lparr>X_count = 1, O_count = 0, Draw_count = 0\<rparr>"
    unfolding b1 resolved_def
    by (simp add: calculateWinner_def calculateWinner_lines_def at_def full_board_game_value)
  moreover from r2 have "at (board (aiMoveEffect computer_game 2)) 2 = Sym PLAYER_O \<and>
      \<not> gameOver (aiMoveEffect computer_game 2) \<and> xIsNext (aiMoveEffect computer_game 2)"
    unfolding b2 resolved_def
    by (simp add: calculateWinner_def calculateWinner_lines_def at_def computer_game_value)
  ultimately show ?thesis using h1 h2 by simp
qed

text \<open>
  C2: \<open>handleSquareClick\<close> is a rejected no-op, the whole state unchanged, whenever the
  game has not started, the game is over, the cell at the index is occupied, or in
  single-player mode it is not X's turn. In every other case it places the symbol of the
  current turn at the index, leaves every other cell as it was, and runs the resolution
  step \<open>handleBoardUpdate\<close> on the new board.
\<close>

theorem handleSquareClick_legality:
  "(rejected s idx \<longrightarrow> handleSquareClick s idx = s) \<and>
   (\<not> rejected s idx \<longrightarrow>
      (let newBoard = array_set (board s) idx (Sym (turn_symbol s)) in
       handleSquareClick s idx =
         handleBoardUpdate (s\<lparr>board := newBoard\<rparr>) newBoard (\<not> xIsNext s) \<and>
       board (handleSquareClick s idx) = newBoard \<and>
       at newBoard idx = Sym (turn_symbol s) \<and>
       (\<forall>j. j \<noteq> idx \<longrightarrow> at newBoard j = at (board s) j)))"
proof (intro conjI impI)
  assume "rejected s idx"
  then show "handleSquareClick s idx = s" by (rule handleSquareClick_rejected)
next
  assume a: "\<not> rejected s idx"
  then have "gameStarted s" "\<not> gameOver s" by (simp_all add: rejected_def)
  from handleBoardUpdate_resolved [OF this]
  have "board (handleBoardUpdate (s\<lparr>board := array_set (board s) idx (Sym (turn_symbol s))\<rparr>)
          (array_set (board s) idx (Sym (turn_symbol s))) (\<not> xIsNext s)) =
        array_set (board s) idx (Sym (turn_symbol s))"
    by (simp add: resolved_def)
  with a show "let newBoard = array_set (board s) idx (Sym (turn_symbol s)) in
       handleSquareClick s idx =
         handleBoardUpdate (s\<lparr>board := newBoard\<rparr>) newBoard (\<not> xIsNext s) \<and>
       board (handleSquareClick s idx) = newBoard \<and>
       at newBoard idx = Sym (turn_symbol s) \<and>
       (\<forall>j. j \<noteq> idx \<longrightarrow> at newBoard j = at (board s) j)"
    by (simp add: handleSquareClick_accepted Let_def at_array_set_same at_array_set_other)
qed

text \<open>In the row game a click on the occupied cell 0 changes nothing; a click on the
  empty cell 5 is accepted, puts X there and leaves cell 4 with its O.\<close>

theorem handleSquareClick_legality_witness:
  "rejected row_game 0 \<and> handleSquareClick row_game 0 = row_game \<and>
   \<not> rejected row_game 5 \<and>
   at (board (handleSquareClick row_game 5)) 5 = Sym PLAYER_X \<and>
   at (board (handleSquareClick row_game 5)) 4 = Sym PLAYER_O"
proof -
  have h1: "rejected row_game 0"
    by (simp add: row_game_value rejected_def occupied_def at_def)
  have h2: "\<not> rejected row_game 5"
    by (simp add: row_game_value rejected_def occupied_def at_def SINGLE_PLAYER_def)
  have t: "turn_symbol row_game = PLAYER_X" "at (board row_game) 4 = Sym PLAYER_O"
    by (simp_all add: row_game_value turn_symbol_def at_def)
  from handleSquareClick_legality [of row_game 0] h1
  have "handleSquareClick row_game 0 = row_game" by simp
  moreover from handleSquareClick_legality [of row_game 5] h2
  have "board (handleSquareClick row_game 5) =
          array_set (board row_game) 5 (Sym (turn_symbol row_game)) \<and>
        at (array_set (board row_game) 5 (Sym (turn_symbol row_game))) 5 =
          Sym (turn_symbol row_game) \<and>
        (\<forall>j. j \<noteq> 5 \<longrightarrow>
           at (array_set (board row_game) 5 (Sym (turn_symbol row_game))) j =
           at (board row_game) j)"
    unfolding Let_def by blast
  then have "at (board (handleSquareClick row_game 5)) 5 = Sym (turn_symbol row_game) \<and>
        at (board (handleSquareClick row_game 5)) 4 = at (board row_game) 4"
    by simp
  ultimately show ?thesis using h1 h2 t by simp
qed

section \<open>Game over\<close>

text \<open>
  C5: Once \<open>gameOver\<close> is set the board is immutable until the next start or restart:
  every further \<open>handleSquareClick\<close> and every scheduled computer move leaves the whole
  state, and so the board, the turn, the game status and the score, unchanged.
\<close>

theorem game_over_moves_are_noops:
  "gameOver s \<longrightarrow> handleSquareClick s idx = s \<and> aiMoveEffect s k = s"
  by (simp add: handleSquareClick_def aiMoveEffect_def)

text \<open>The single-player game the computer has just won, with empty cells left: a click
  on the empty cell 2 and a further computer move both change nothing.\<close>

theorem game_over_moves_are_noops_witness:
  "gameOver (aiMoveEffect computer_win_game 1) \<and>
   at (board (aiMoveEffect computer_win_game 1)) 2 = Null \<and>
   handleSquareClick (aiMoveEffect computer_win_game 1) 2 = aiMoveEffect computer_win_game 1 \<and>
   aiMoveEffect (aiMoveEffect computer_win_game 1) 0 = aiMoveEffect computer_win_game 1"
proof -
  have v: "gameOver (aiMoveEffect computer_win_game 1) \<and>
      at (board (aiMoveEffect computer_win_game 1)) 2 = Null"
    by (simp add: computer_win_game_value handler_defs upt_conv_Cons)
  with game_over_moves_are_noops [of "aiMoveEffect computer_win_game 1" 2 0]
  show ?thesis by simp
qed

section \<open>The score\<close>

text \<open>
  C4: Exactly one of the three counters is incremented, by exactly one, by the move
  that ends a game, human or computer, and by nothing else: a move that does not end
  the game, and every move attempted once the game is over, leaves the score as it was,
  and so does \<open>restartGame\<close>.
\<close>

theorem score_incremented_once_per_game:
  "(\<not> gameOver s \<and> gameOver (handleSquareClick s idx) \<longrightarrow>
      one_counter_incremented (score s) (score (handleSquareClick s idx))) \<and>
   (\<not> gameOver s \<and> gameOver (aiMoveEffect s k) \<longrightarrow>
      one_counter_incremented (score s) (score (aiMoveEffect s k))) \<and>
   (gameOver s \<or> \<not> gameOver (handleSquareClick s idx) \<longrightarrow>
      score (handleSquareClick s idx) = score s) \<and>
   (gameOver s \<or> \<not> gameOver (aiMoveEffect s k) \<longrightarrow>
      score (aiMoveEffect s k) = score s) \<and>
   score (restartGame s) = score s"
proof -
  have click: "(\<not> gameOver s \<and> gameOver (handleSquareClick s idx) \<longrightarrow>
      one_counter_incremented (score s) (score (handleSquareClick s idx))) \<and>
     (gameOver s \<or> \<not> gameOver (handleSquareClick s idx) \<longrightarrow>
      score (handleSquareClick s idx) = score s)"
    using handleSquareClick_cases [of s idx]
  proof (elim disjE conjE exE)
    assume "handleSquareClick s idx = s"
    then show ?thesis by simp
  next
    fix nb t
    assume "\<not> gameOver s" and "handleSquareClick s idx = handleBoardUpdate (s\<lparr>board := nb\<rparr>) nb t"
    with handleBoardUpdate_score [of "s\<lparr>board := nb\<rparr>" nb t] show ?thesis by simp
  qed
  have computer: "(\<not> gameOver s \<and> gameOver (aiMoveEffect s k) \<longrightarrow>
      one_counter_incremented (score s) (score (aiMoveEffect s k))) \<and>
     (gameOver s \<or> \<not> gameOver (aiMoveEffect s k) \<longrightarrow>
      score (aiMoveEffect s k) = score s)"
    using aiMoveEffect_cases [of s k]
  proof (elim disjE conjE exE)
    assume "aiMoveEffect s k = s"
    then show ?thesis by simp
  next
    fix nb
    assume "\<not> gameOver s" and "aiMoveEffect s k = handleBoardUpdate (s\<lparr>board := nb\<rparr>) nb True"
    with handleBoardUpdate_score [of "s\<lparr>board := nb\<rparr>" nb True] show ?thesis by simp
  qed
  have "score (restartGame s) = score s" by (simp add: restartGame_def)
  with click computer show ?thesis by blast
qed

text \<open>X wins the row game by playing 2: the score goes from 0, 0, 0 to 1, 0, 0, and a
  further click on the empty cell 5 leaves it there. The computer wins its game by its
  next move: the score goes to 0, 1, 0. A move that does not end the game, X at 5 in the
  row game or the computer's first move, leaves the score at 0, 0, 0.\<close>

theorem score_incremented_once_per_game_witness:
  "\<not> gameOver row_game \<and> gameOver (handleSquareClick row_game 2) \<and>
   score row_game = \<lparr>X_count = 0, O_count = 0, Draw_count = 0\<rparr> \<and>
   score (handleSquareClick row_game 2) = \<lparr>X_count = 1, O_count = 0, Draw_count = 0\<rparr> \<and>
   score (handleSquareClick (handleSquareClick row_game 2) 5) =
     \<lparr>X_count = 1, O_count = 0, Draw_count = 0\<rparr> \<and>
   \<not> gameOver computer_win_game \<and> gameOver (aiMoveEffect computer_win_game 1) \<and>
   score (aiMoveEffect computer_win_game 1) = \<lparr>X_count = 0, O_count = 1, Draw_count = 0\<rparr> \<and>
   \<not> gameOver (handleSquareClick row_game 5) \<and>
   score (handleSquareClick row_game 5) = \<lparr>X_count = 0, O_count = 0, Draw_count = 0\<rparr> \<and>
   \<not> gameOver (aiMoveEffect computer_game 2) \<and>
   score (aiMoveEffect computer_game 2) = \<lparr>X_count = 0, O_count = 0, Draw_count = 0\<rparr>"
proof -
  have g: "\<not> gameOver row_game" "gameOver (handleSquareClick row_game 2)"
    "\<not> gameOver computer_win_game" "gameOver (aiMoveEffect computer_win_game 1)"
    "\<not> gameOver (handleSquareClick row_game 5)" "\<not> gameOver (aiMoveEffect computer_game 2)"
    by (simp_all add: row_game_value computer_win_game_value computer_game_value
        handler_defs upt_conv_Cons)
  have z: "score row_game = \<lparr>X_count = 0, O_count = 0, Draw_count = 0\<rparr>"
    "score computer_win_game = \<lparr>X_count = 0, O_count = 0, Draw_count = 0\<rparr>"
    "score computer_game = \<lparr>X_count = 0, O_count = 0, Draw_count = 0\<rparr>"
    by (simp_all add: row_game_value computer_win_game_value computer_game_value)
  have w: "calculateWinner (board (handleSquareClick row_game 2)) = Sym PLAYER_X"
    "calculateWinner (board (aiMoveEffect computer_win_game 1)) = Sym PLAYER_O"
    by (simp_all add: row_game_value computer_win_game_value handler_defs upt_conv_Cons)
  from score_incremented_once_per_game [of row_game 2] g
  have "one_counter_incremented (score row_game) (score (handleSquareClick row_game 2))"
    by simp
  moreover have "X_count (score (handleSquareClick row_game 2)) = 1"
    by (simp add: row_game_value handler_defs)
  ultimately have a: "score (handleSquareClick row_game 2) =
      \<lparr>X_count = 1, O_count = 0, Draw_count = 0\<rparr>"
    by (cases "score (handleSquareClick row_game 2)") (simp add: one_counter_incremented_def z)
  from score_incremented_once_per_game [of "handleSquareClick row_game 2" 5] g a
  have b: "score (handleSquareClick (handleSquareClick row_game 2) 5) =
      \<lparr>X_count = 1, O_count = 0, Draw_count = 0\<rparr>"
    by simp
  from score_incremented_once_per_game [where s = computer_win_game and k = 1] g
  have "one_counter_incremented (score computer_win_game) (score (aiMoveEffect computer_win_game 1))"
    by simp
  moreover have "O_count (score (aiMoveEffect computer_win_game 1)) = 1"
    by (simp add: computer_win_game_value handler_defs upt_conv_Cons)
  ultimately have c: "score (aiMoveEffect computer_win_game 1) =
      \<lparr>X_count = 0, O_count = 1, Draw_count = 0\<rparr>"
    by (cases "score (aiMoveEffect computer_win_game 1)") (simp add: one_counter_incremented_def z)
  from score_incremented_once_per_game [of row_game 5] g z
  have d: "score (handleSquareClick row_game 5) = \<lparr>X_count = 0, O_count = 0, Draw_count = 0\<rparr>"
    by simp
  from score_incremented_once_per_game [where s = computer_game and k = 2] g z
  have e: "score (aiMoveEffect computer_game 2) = \<lparr>X_count = 0, O_count = 0, Draw_count = 0\<rparr>"
    by simp
  from g z a b c d e show ?thesis by simp
qed

section \<open>Starting and restarting\<close>

text \<open>
  C6 as the specification states it fails: \<open>restartGame\<close> has no check of its own, and
  called in the first state, before any game has been started, it replaces the status
  message.
\<close>

theorem restartGame_not_started_counterexample:
  "\<not> gameStarted initial_state \<and>
   status initial_state = ''Choose a mode & start the game.'' \<and>
   status (restartGame initial_state) = ''Game reset. X's turn'' \<and>
   restartGame initial_state \<noteq> initial_state"
proof -
  have s: "status initial_state = ''Choose a mode & start the game.''"
    "status (restartGame initial_state) = ''Game reset. X's turn''"
    by (simp_all add: initial_state_def restartGame_def TWO_PLAYER_def SINGLE_PLAYER_def)
  then have "status (restartGame initial_state) \<noteq> status initial_state" by simp
  then have "restartGame initial_state \<noteq> initial_state" by auto
  with s show ?thesis by (simp add: initial_state_def)
qed

text \<open>
  C6, amended: \<open>restartGame\<close> resets the board to all-empty, sets the turn to X and clears
  \<open>gameOver\<close>, and preserves the mode, the score and the started flag exactly as they
  were. It has no check of its own; it is the Restart button, disabled until a game has
  been started, that changes nothing when no game has been started, and that calls
  \<open>restartGame\<close> otherwise.
\<close>

theorem restartGame_resets:
  "board (restartGame s) = getInitialBoard \<and>
   xIsNext (restartGame s) \<and>
   \<not> gameOver (restartGame s) \<and>
   mode (restartGame s) = mode s \<and>
   score (restartGame s) = score s \<and>
   gameStarted (restartGame s) = gameStarted s \<and>
   (\<not> gameStarted s \<longrightarrow> restartButton s = s) \<and>
   (gameStarted s \<longrightarrow> restartButton s = restartGame s)"
  by (simp add: restartGame_def restartButton_def)

text \<open>Before any game the button changes nothing; after X has won the row game it
  empties the board and keeps the score 1, 0, 0.\<close>

theorem restartGame_resets_witness:
  "\<not> gameStarted initial_state \<and> restartButton initial_state = initial_state \<and>
   gameStarted (handleSquareClick row_game 2) \<and>
   board (restartButton (handleSquareClick row_game 2)) =
     [Null, Null, Null, Null, Null, Null, Null, Null, Null] \<and>
   score (restartButton (handleSquareClick row_game 2)) =
     \<lparr>X_count = 1, O_count = 0, Draw_count = 0\<rparr>"
proof -
  have h1: "\<not> gameStarted initial_state" by (simp add: initial_state_def)
  have h2: "gameStarted (handleSquareClick row_game 2)"
    and sc: "score (handleSquareClick row_game 2) = \<lparr>X_count = 1, O_count = 0, Draw_count = 0\<rparr>"
    by (simp_all add: row_game_value handler_defs)
  from restartGame_resets [of initial_state] h1
  have "restartButton initial_state = initial_state" by simp
  moreover from restartGame_resets [of "handleSquareClick row_game 2"] h2 sc
  have "board (restartButton (handleSquareClick row_game 2)) = getInitialBoard \<and>
        score (restartButton (handleSquareClick row_game 2)) =
          \<lparr>X_count = 1, O_count = 0, Draw_count = 0\<rparr>"
    by simp
  ultimately show ?thesis using h1 h2 by (simp add: getInitialBoard_def replicate9)
qed

text \<open>
  C8 as the specification states it fails: \<open>startGame\<close> does not look at the value of
  its argument. Called in the first state with the string \<^verbatim>\<open>HARD\<close>, which is neither of
  the two modes, it stores that string as the mode and starts a game.
\<close>

theorem startGame_invalid_mode_counterexample:
  "''HARD'' \<noteq> TWO_PLAYER \<and> ''HARD'' \<noteq> SINGLE_PLAYER \<and>
   mode (startGame initial_state ''HARD'') = ''HARD'' \<and>
   gameStarted (startGame initial_state ''HARD'') \<and>
   \<not> gameStarted initial_state \<and>
   startGame initial_state ''HARD'' \<noteq> initial_state"
proof -
  have g: "gameStarted (startGame initial_state ''HARD'')" "\<not> gameStarted initial_state"
    by (simp_all add: startGame_def initial_state_def)
  then have "startGame initial_state ''HARD'' \<noteq> initial_state" by auto
  with g show ?thesis by (simp add: startGame_def TWO_PLAYER_def SINGLE_PLAYER_def)
qed

text \<open>
  C8, amended: \<open>startGame\<close> does not validate its argument. Called with any mode value
  it sets the mode to that value, resets the board to all-empty, sets the turn to X,
  clears \<open>gameOver\<close>, sets \<open>gameStarted\<close>, and does not reset the score.
\<close>

theorem startGame_any_mode:
  "mode (startGame s selectedMode) = selectedMode \<and>
   board (startGame s selectedMode) = getInitialBoard \<and>
   xIsNext (startGame s selectedMode) \<and>
   \<not> gameOver (startGame s selectedMode) \<and>
   gameStarted (startGame s selectedMode) \<and>
   score (startGame s selectedMode) = score s"
  by (simp add: startGame_def)

section \<open>The turn\<close>

text \<open>
  C9 as the specification states it fails: in the row game it is X's turn, X's move at
  cell 2 is accepted and wins the game, and afterwards it is still X's turn: the turn
  did not flip.
\<close>

theorem turn_flips_counterexample:
  "\<not> rejected row_game 2 \<and> xIsNext row_game \<and> xIsNext (handleSquareClick row_game 2)"
  by (simp add: row_game_value rejected_def occupied_def handler_defs)

text \<open>
  C9, amended: the turn is X in the first state and after every \<open>startGame\<close> and
  \<open>restartGame\<close>; every accepted move, human or computer, that does not end the game
  flips the turn exactly once to the other symbol; an accepted move that wins or draws
  the game leaves the turn as it was.
\<close>

theorem turn_flips:
  "xIsNext initial_state \<and>
   xIsNext (startGame s selectedMode) \<and>
   xIsNext (restartGame s) \<and>
   (\<not> rejected s idx \<and> \<not> gameOver (handleSquareClick s idx) \<longrightarrow>
      xIsNext (handleSquareClick s idx) = (\<not> xIsNext s)) \<and>
   (computer_accepts s k \<and> \<not> gameOver (aiMoveEffect s k) \<longrightarrow>
      xIsNext (aiMoveEffect s k) = (\<not> xIsNext s)) \<and>
   (\<not> rejected s idx \<and> gameOver (handleSquareClick s idx) \<longrightarrow>
      xIsNext (handleSquareClick s idx) = xIsNext s) \<and>
   (computer_accepts s k \<and> gameOver (aiMoveEffect s k) \<longrightarrow>
      xIsNext (aiMoveEffect s k) = xIsNext s)"
proof -
  have init: "xIsNext initial_state \<and> xIsNext (startGame s selectedMode) \<and> xIsNext (restartGame s)"
    by (simp add: initial_state_def startGame_def restartGame_def)
  have click: "\<not> rejected s idx \<longrightarrow>
      (if gameOver (handleSquareClick s idx)
       then xIsNext (handleSquareClick s idx) = xIsNext s
       else xIsNext (handleSquareClick s idx) = (\<not> xIsNext s))"
  proof
    assume a: "\<not> rejected s idx"
    then have "\<not> gameOver s" by (simp add: rejected_def)
    with handleBoardUpdate_turn
      [of "s\<lparr>board := array_set (board s) idx (Sym (turn_symbol s))\<rparr>"
          "array_set (board s) idx (Sym (turn_symbol s))" "\<not> xIsNext s"]
    show "if gameOver (handleSquareClick s idx)
       then xIsNext (handleSquareClick s idx) = xIsNext s
       else xIsNext (handleSquareClick s idx) = (\<not> xIsNext s)"
      by (simp add: handleSquareClick_accepted [OF a])
  qed
  have computer: "computer_accepts s k \<longrightarrow>
      (if gameOver (aiMoveEffect s k)
       then xIsNext (aiMoveEffect s k) = xIsNext s
       else xIsNext (aiMoveEffect s k) = (\<not> xIsNext s))"
  proof
    assume a: "computer_accepts s k"
    then have "\<not> gameOver s" "\<not> xIsNext s" by (simp_all add: computer_accepts_def)
    with handleBoardUpdate_turn
      [of "s\<lparr>board := array_set (board s) (empty_cells (board s) ! k) (Sym PLAYER_O)\<rparr>"
          "array_set (board s) (empty_cells (board s) ! k) (Sym PLAYER_O)" True]
    show "if gameOver (aiMoveEffect s k)
       then xIsNext (aiMoveEffect s k) = xIsNext s
       else xIsNext (aiMoveEffect s k) = (\<not> xIsNext s)"
      by (simp add: aiMoveEffect_accepted [OF a])
  qed
  from init click computer show ?thesis by (simp split: if_splits)
qed

text \<open>X at 5 in the row game continues the game and hands the turn to O; the computer's
  first move hands it to X; X at 2 wins the row game and the turn stays with X; the
  computer's winning move leaves the turn with O.\<close>

theorem turn_flips_witness:
  "\<not> rejected row_game 5 \<and> \<not> gameOver (handleSquareClick row_game 5) \<and>
   xIsNext row_game \<and> \<not> xIsNext (handleSquareClick row_game 5) \<and>
   computer_accepts computer_game 2 \<and> \<not> gameOver (aiMoveEffect computer_game 2) \<and>
   \<not> xIsNext computer_game \<and> xIsNext (aiMoveEffect computer_game 2) \<and>
   \<not> rejected row_game 2 \<and> gameOver (handleSquareClick row_game 2) \<and>
   xIsNext (handleSquareClick row_game 2) \<and>
   computer_accepts computer_win_game 1 \<and> gameOver (aiMoveEffect computer_win_game 1) \<and>
   \<not> xIsNext computer_win_game \<and> \<not> xIsNext (aiMoveEffect computer_win_game 1)"
proof -
  have r: "\<not> rejected row_game 5" "\<not> rejected row_game 2"
    by (simp_all add: row_game_value rejected_def occupied_def at_def SINGLE_PLAYER_def)
  have c: "computer_accepts computer_game 2" "computer_accepts computer_win_game 1"
    by (simp_all add: computer_game_value computer_win_game_value computer_accepts_def
        empty_cells_def SINGLE_PLAYER_def upt_conv_Cons)
  have g: "\<not> gameOver (handleSquareClick row_game 5)" "gameOver (handleSquareClick row_game 2)"
    "\<not> gameOver (aiMoveEffect computer_game 2)" "gameOver (aiMoveEffect computer_win_game 1)"
    by (simp_all add: row_game_value computer_win_game_value computer_game_value
        handler_defs upt_conv_Cons)
  have x: "xIsNext row_game" "\<not> xIsNext computer_game" "\<not> xIsNext computer_win_game"
    by (simp_all add: row_game_value computer_win_game_value computer_game_value)
  from turn_flips [where s = row_game and idx = 5] r g x
  have t1: "\<not> xIsNext (handleSquareClick row_game 5)" by simp
  from turn_flips [where s = computer_game and k = 2] c g x
  have t2: "xIsNext (aiMoveEffect computer_game 2)" by simp
  from turn_flips [where s = row_game and idx = 2] r g x
  have t3: "xIsNext (handleSquareClick row_game 2)" by simp
  from turn_flips [where s = computer_win_game and k = 1] c g x
  have t4: "\<not> xIsNext (aiMoveEffect computer_win_game 1)" by simp
  from r c g x t1 t2 t3 t4 show ?thesis by simp
qed


end
